theory Spec2Isabelle
  imports
    Complex_Main
    "HOL-Library.Char_ord"
    "HOL-Library.List_Lexorder"
    "HOL-Library.Multiset"
    "HOL-Library.Sublist"
begin

section \<open>HotelStay server: a shallow embedding of \<open>server/app.py\<close>\<close>

text \<open>
  The server has one tool, \<open>explore_stays\<close>, which reads a JSON file of stay records,
  filters it by city and by minimum rating, sorts it and picks a selected record; and one
  resource, whose text is found by \<open>find_built_asset\<close>. Both are embedded below as pure
  functions of the files they read.

  Scope of the embedding.
  \<^item> A Python \<open>str\<close> is a \<open>string\<close>, read as a sequence of code points below 256;
    \<open>str.strip\<close> and \<open>str.lower\<close> are written out for that range.
  \<^item> A number is its exact value: a Python \<open>int\<close> is an \<open>int\<close>, a finite Python
    \<open>float\<close> is the rational it denotes. The non-finite floats (NaN, the infinities,
    which are no JSON but which \<open>json.loads\<close> accepts) are not represented.
  \<^item> Where Python's answer depends on library behaviour that is not written out here, the
    model returns the error \<open>Unmodelled\<close> instead of guessing; each such place is marked.
\<close>

subsection \<open>Python strings\<close>

definition is_space :: "char \<Rightarrow> bool" where
  \<comment> \<open>\<open>str.isspace\<close> on the code points below 256\<close>
  "is_space c =
     (let n = (of_char c :: nat)
      in (9 \<le> n \<and> n \<le> 13) \<or> (28 \<le> n \<and> n \<le> 32) \<or> n = 133 \<or> n = 160)"

definition str_strip :: "string \<Rightarrow> string" where
  \<comment> \<open>\<open>s.strip()\<close>: leading and trailing whitespace removed\<close>
  "str_strip s = rev (dropWhile is_space (rev (dropWhile is_space s)))"

definition lower_char :: "char \<Rightarrow> char" where
  \<comment> \<open>A-Z and the Latin-1 capitals (not the multiplication sign) move up by 32\<close>
  "lower_char c =
     (let n = (of_char c :: nat)
      in if (65 \<le> n \<and> n \<le> 90) \<or> (192 \<le> n \<and> n \<le> 222 \<and> n \<noteq> 215)
         then char_of (n + 32) else c)"

definition str_lower :: "string \<Rightarrow> string" where
  \<comment> \<open>\<open>s.lower()\<close>\<close>
  "str_lower s = map lower_char s"

definition digit_char :: "nat \<Rightarrow> char" where
  "digit_char d = char_of (48 + d)"

function str_of_nat :: "nat \<Rightarrow> string" where
  \<comment> \<open>the decimal text an f-string gives for a non-negative \<open>int\<close>\<close>
  "str_of_nat n =
     (if n < 10 then [digit_char n] else str_of_nat (n div 10) @ [digit_char (n mod 10)])"
  by pat_completeness auto
termination
  by (relation "measure (\<lambda>n. n)") auto

subsection \<open>JSON values and Python's operations on them\<close>

datatype json =
    JNull
  | JBool bool
  | JInt int
  | JFloat rat
  | JStr string
  | JArr "json list"
  | JObj "(string \<times> json) list"

text \<open>
  These are the values that \<open>json.loads\<close> builds. \<open>JObj kvs\<close> is a Python \<open>dict\<close>
  with string keys, each key once, in insertion order; a key is looked up with \<open>map_of\<close>.
  \<open>JInt\<close> and \<open>JFloat\<close> keep Python's \<open>int\<close> and \<open>float\<close> apart, \<open>1\<close> from
  \<open>1.0\<close>.
\<close>

datatype type_error_op = Iterate | Subscript | Float | LessThan

datatype error =
    ReadError  \<comment> \<open>\<open>Path.read_text\<close> raised: \<open>OSError\<close> or \<open>UnicodeDecodeError\<close>\<close>
  | JSONDecodeError  \<comment> \<open>\<open>json.loads\<close> raised\<close>
  | FileNotFoundError  \<comment> \<open>raised by \<open>find_built_asset\<close> itself\<close>
  | KeyError string  \<comment> \<open>\<open>d[k]\<close> on a dict without the key \<open>k\<close>\<close>
  | TypeError type_error_op  \<comment> \<open>\<open>TypeError\<close>, with the operation that raised it\<close>
  | AttributeError string  \<comment> \<open>the value has no such method\<close>
  | Unmodelled  \<comment> \<open>outside the embedding, see the places marked below\<close>

definition bind_err :: "error + 'a \<Rightarrow> ('a \<Rightarrow> error + 'b) \<Rightarrow> error + 'b" where
  "bind_err m f = (case m of Inl e \<Rightarrow> Inl e | Inr x \<Rightarrow> f x)"

fun filter_err :: "('a \<Rightarrow> error + bool) \<Rightarrow> 'a list \<Rightarrow> error + 'a list" where
  \<comment> \<open>\<open>[s for s in xs if p(s)]\<close>: the first exception of \<open>p\<close>, in list order, ends it\<close>
  "filter_err p [] = Inr []"
| "filter_err p (x # xs) =
     bind_err (p x) (\<lambda>b. bind_err (filter_err p xs) (\<lambda>ys. Inr (if b then x # ys else ys)))"

fun map_err :: "('a \<Rightarrow> error + 'b) \<Rightarrow> 'a list \<Rightarrow> error + 'b list" where
  "map_err f [] = Inr []"
| "map_err f (x # xs) =
     bind_err (f x) (\<lambda>y. bind_err (map_err f xs) (\<lambda>ys. Inr (y # ys)))"

fun py_iter :: "json \<Rightarrow> error + json list" where
  \<comment> \<open>\<open>for s in v\<close>: a list gives its items, a dict its keys, a str its characters\<close>
  "py_iter (JArr xs) = Inr xs"
| "py_iter (JObj kvs) = Inr (map (\<lambda>kv. JStr (fst kv)) kvs)"
| "py_iter (JStr s) = Inr (map (\<lambda>c. JStr [c]) s)"
| "py_iter _ = Inl (TypeError Iterate)"

fun py_getitem :: "json \<Rightarrow> string \<Rightarrow> error + json" where
  \<comment> \<open>\<open>s[k]\<close> for a string \<open>k\<close>\<close>
  "py_getitem (JObj kvs) k = (case map_of kvs k of None \<Rightarrow> Inl (KeyError k) | Some v \<Rightarrow> Inr v)"
| "py_getitem _ k = Inl (TypeError Subscript)"

fun py_get :: "json \<Rightarrow> string \<Rightarrow> json \<Rightarrow> error + json" where
  \<comment> \<open>\<open>s.get(k, d)\<close>\<close>
  "py_get (JObj kvs) k d = Inr (case map_of kvs k of None \<Rightarrow> d | Some v \<Rightarrow> v)"
| "py_get _ k d = Inl (AttributeError ''get'')"

fun py_lower :: "json \<Rightarrow> error + string" where
  \<comment> \<open>\<open>v.lower()\<close>\<close>
  "py_lower (JStr s) = Inr (str_lower s)"
| "py_lower _ = Inl (AttributeError ''lower'')"

fun py_float :: "json \<Rightarrow> error + rat" where
  \<comment> \<open>\<open>float(v)\<close>. Not written out: the rounding of an \<open>int\<close> beyond \<open>2^53\<close>, and the
      parsing of a \<open>str\<close> (a number or \<open>ValueError\<close>).\<close>
  "py_float (JBool b) = Inr (of_bool b)"
| "py_float (JInt n) = (if \<bar>n\<bar> \<le> 2 ^ 53 then Inr (of_int n) else Inl Unmodelled)"
| "py_float (JFloat q) = Inr q"
| "py_float (JStr s) = Inl Unmodelled"
| "py_float _ = Inl (TypeError Float)"

subsection \<open>\<open>list.sort(key=..., reverse=...)\<close>\<close>

text \<open>
  Python orders numbers (\<open>bool\<close>, \<open>int\<close>, \<open>float\<close>) by value and strings by code
  points; \<open><\<close> between values of two of the kinds number, string, list, and on \<open>None\<close>
  or a dict, raises \<open>TypeError\<close>. \<open>list.sort\<close> first computes every key, then sorts
  stably; with \<open>reverse=True\<close> it reverses the list, sorts it stably in ascending order
  and reverses it again. A list of fewer than two items is not compared at all. In a longer
  list every item is compared with another one, and items of two kinds cannot be put in
  order without a comparison across the kinds: so the sort succeeds when all keys are
  numbers or all are strings, and raises \<open>TypeError\<close> on \<open>None\<close>, on a dict and on
  keys of two kinds.
\<close>

fun num_val :: "json \<Rightarrow> rat option" where
  "num_val (JBool b) = Some (of_bool b)"
| "num_val (JInt n) = Some (of_int n)"
| "num_val (JFloat q) = Some q"
| "num_val _ = None"

fun str_val :: "json \<Rightarrow> string option" where
  "str_val (JStr s) = Some s"
| "str_val _ = None"

fun is_arr :: "json \<Rightarrow> bool" where
  "is_arr (JArr xs) = True"
| "is_arr _ = False"

definition num_key :: "json \<Rightarrow> rat" where
  "num_key v = (case num_val v of Some q \<Rightarrow> q | None \<Rightarrow> 0)"

definition str_key :: "json \<Rightarrow> string" where
  "str_key v = (case str_val v of Some s \<Rightarrow> s | None \<Rightarrow> [])"

definition stable_sort :: "('a \<Rightarrow> 'k::linorder) \<Rightarrow> bool \<Rightarrow> 'a list \<Rightarrow> 'a list" where
  \<comment> \<open>\<open>sort_key\<close> is the stable insertion sort of the list library\<close>
  "stable_sort f reverse xs = (if reverse then rev (sort_key f (rev xs)) else sort_key f xs)"

definition py_sort :: "(json \<Rightarrow> error + json) \<Rightarrow> bool \<Rightarrow> json list \<Rightarrow> error + json list" where
  \<comment> \<open>\<open>xs.sort(key=key, reverse=reverse)\<close>; the keys travel with their items. Not
      written out: the order of lists, which Python compares item by item.\<close>
  "py_sort key reverse xs =
     bind_err (map_err key xs) (\<lambda>ks.
       if length xs \<le> 1 then Inr xs
       else if list_all (\<lambda>k. num_val k \<noteq> None) ks
         then Inr (map snd (stable_sort (\<lambda>kx. num_key (fst kx)) reverse (zip ks xs)))
       else if list_all (\<lambda>k. str_val k \<noteq> None) ks
         then Inr (map snd (stable_sort (\<lambda>kx. str_key (fst kx)) reverse (zip ks xs)))
       else if list_all is_arr ks then Inl Unmodelled
       else Inl (TypeError LessThan))"

subsection \<open>The files the server reads\<close>

record asset_file =
  af_mtime :: nat  \<comment> \<open>time of last modification\<close>
  af_text :: "string option"  \<comment> \<open>what \<open>read_text\<close> gives, \<open>None\<close> when it raises\<close>

record env =
  data_text :: "string option"  \<comment> \<open>\<open>data/stays.json\<close> as text, \<open>None\<close> when it cannot be read\<close>
  assets :: "(string \<times> asset_file) list"  \<comment> \<open>\<open>web/dist/assets\<close>: file name and file\<close>

definition load_stays :: "(string \<Rightarrow> json option) \<Rightarrow> env \<Rightarrow> error + json" where
  \<comment> \<open>\<open>json.loads(DATA_PATH.read_text(encoding="utf-8"))\<close>; the parser \<open>json.loads\<close> is the
      parameter \<open>loads\<close>, \<open>None\<close> where it raises\<close>
  "load_stays loads e =
     (case data_text e of
        None \<Rightarrow> Inl ReadError
      | Some t \<Rightarrow> (case loads t of None \<Rightarrow> Inl JSONDecodeError | Some v \<Rightarrow> Inr v))"




subsection \<open>The tool\<close>

record structured =
  sc_city :: string
  sc_results :: "json list"
  sc_selected :: "json option"
  sc_min_rating :: "rat option"  \<comment> \<open>\<open>applied_filters["min_rating"]\<close>\<close>
  sc_sort :: string  \<comment> \<open>\<open>applied_filters["sort"]\<close>\<close>

record tool_result =
  content_text :: string
  structured_content :: structured

definition city_matches :: "string \<Rightarrow> json \<Rightarrow> error + bool" where
  \<comment> \<open>\<open>s["city"].lower() == city_norm\<close>\<close>
  "city_matches city_norm s =
     bind_err (py_getitem s ''city'') (\<lambda>c. bind_err (py_lower c) (\<lambda>l. Inr (l = city_norm)))"

definition rating_at_least :: "rat \<Rightarrow> json \<Rightarrow> error + bool" where
  \<comment> \<open>\<open>float(s.get("rating", 0)) >= float(min_rating)\<close>\<close>
  "rating_at_least r s =
     bind_err (py_get s ''rating'' (JInt 0)) (\<lambda>v. bind_err (py_float v) (\<lambda>q. Inr (q \<ge> r)))"

fun find_selected :: "string \<Rightarrow> json list \<Rightarrow> error + json option" where
  \<comment> \<open>the \<open>for\<close> loop with its \<open>break\<close>\<close>
  "find_selected sid [] = Inr None"
| "find_selected sid (s # ss) =
     bind_err (py_getitem s ''id'')
       (\<lambda>v. if v = JStr sid then Inr (Some s) else find_selected sid ss)"

definition explore_stays ::
  "(string \<Rightarrow> json option) \<Rightarrow> env \<Rightarrow> string \<Rightarrow> rat option \<Rightarrow> string \<Rightarrow> string option
     \<Rightarrow> error + tool_result" where
  "explore_stays loads e city min_rating sort_by selected_id =
     bind_err (load_stays loads e) (\<lambda>stays.
     let city_norm = str_lower (str_strip city) in
     bind_err (py_iter stays) (\<lambda>recs.
     bind_err (filter_err (city_matches city_norm) recs) (\<lambda>filtered.
     bind_err (case min_rating of
                 None \<Rightarrow> Inr filtered
               | Some r \<Rightarrow> filter_err (rating_at_least r) filtered) (\<lambda>filtered.
     let reverse = (if sort_by = ''rating'' then True else False);
         key = (if sort_by = ''rating'' then ''rating'' else ''price_per_night'') in
     bind_err (py_sort (\<lambda>s. py_get s key (JInt 0)) reverse filtered) (\<lambda>filtered.
     bind_err (case selected_id of
                 None \<Rightarrow> Inr None
               | Some sid \<Rightarrow> if sid \<noteq> [] then find_selected sid filtered else Inr None)
       (\<lambda>selected.
     Inr \<lparr>content_text =
            ''Found '' @ str_of_nat (length filtered) @ '' stays in '' @ str_strip city @ ''.'',
          structured_content =
            \<lparr>sc_city = str_strip city,
             sc_results = filtered,
             sc_selected = selected,
             sc_min_rating = min_rating,
             sc_sort = sort_by\<rparr>\<rparr>))))))"

subsection \<open>Vocabulary for stating the properties\<close>

definition field :: "json \<Rightarrow> string \<Rightarrow> json option" where
  \<comment> \<open>the field \<open>k\<close> of a record, \<open>None\<close> when the value is no dict or lacks the key\<close>
  "field s k = (case s of JObj kvs \<Rightarrow> map_of kvs k | _ \<Rightarrow> None)"

definition get_or0 :: "json \<Rightarrow> string \<Rightarrow> json" where
  \<comment> \<open>the field \<open>k\<close>, with 0 for a missing one\<close>
  "get_or0 s k = (case field s k of None \<Rightarrow> JInt 0 | Some v \<Rightarrow> v)"

definition has_city :: "string \<Rightarrow> json \<Rightarrow> bool" where
  \<comment> \<open>the record's city is a string that, lower-cased, is \<open>city_norm\<close>\<close>
  "has_city city_norm s =
     (case field s ''city'' of Some (JStr c) \<Rightarrow> str_lower c = city_norm | _ \<Rightarrow> False)"

definition city_is_str :: "json \<Rightarrow> bool" where
  \<comment> \<open>the record has a city field, and it is a string\<close>
  "city_is_str s = (case field s ''city'' of Some (JStr c) \<Rightarrow> True | _ \<Rightarrow> False)"

definition float_ok :: "json \<Rightarrow> bool" where
  \<comment> \<open>a number that \<open>float\<close> converts without rounding\<close>
  "float_ok v = (case v of JBool b \<Rightarrow> True | JInt n \<Rightarrow> \<bar>n\<bar> \<le> 2 ^ 53 | JFloat q \<Rightarrow> True
                 | _ \<Rightarrow> False)"

definition well_formed_stay :: "json \<Rightarrow> bool" where
  \<comment> \<open>a record of the documented form: string city, an id, numeric rating and price\<close>
  "well_formed_stay s =
     (city_is_str s \<and> field s ''id'' \<noteq> None \<and> float_ok (get_or0 s ''rating'')
      \<and> num_val (get_or0 s ''price_per_night'') \<noteq> None)"

definition rating_of :: "json \<Rightarrow> rat" where
  \<comment> \<open>the numeric rating, 0 when the field is missing\<close>
  "rating_of s = num_key (get_or0 s ''rating'')"

definition meets_min_rating :: "rat option \<Rightarrow> json \<Rightarrow> bool" where
  "meets_min_rating min_rating s =
     (case min_rating of None \<Rightarrow> True | Some r \<Rightarrow> r \<le> rating_of s)"

definition kept :: "string \<Rightarrow> rat option \<Rightarrow> json list \<Rightarrow> json list" where
  \<comment> \<open>the records that pass both filters, in the order of the dataset\<close>
  "kept city_norm min_rating recs =
     filter (\<lambda>s. has_city city_norm s \<and> meets_min_rating min_rating s) recs"

definition has_id :: "string \<Rightarrow> json \<Rightarrow> bool" where
  "has_id sid s = (field s ''id'' = Some (JStr sid))"




definition sort_field :: "string \<Rightarrow> string" where
  \<comment> \<open>the local \<open>key\<close> of \<open>explore_stays\<close>\<close>
  "sort_field sort_by = (if sort_by = ''rating'' then ''rating'' else ''price_per_night'')"

definition select_stage :: "string option \<Rightarrow> json list \<Rightarrow> error + json option" where
  \<comment> \<open>the selection step of \<open>explore_stays\<close>, lines 116 to 121\<close>
  "select_stage selected_id filtered =
     (case selected_id of
        None \<Rightarrow> Inr None
      | Some sid \<Rightarrow> if sid \<noteq> [] then find_selected sid filtered else Inr None)"

definition make_result ::
  "string \<Rightarrow> rat option \<Rightarrow> string \<Rightarrow> json list \<Rightarrow> json option \<Rightarrow> tool_result" where
  \<comment> \<open>the value that \<open>explore_stays\<close> returns, lines 123 to 138\<close>
  "make_result city min_rating sort_by filtered selected =
     \<lparr>content_text =
        ''Found '' @ str_of_nat (length filtered) @ '' stays in '' @ str_strip city @ ''.'',
      structured_content =
        \<lparr>sc_city = str_strip city,
         sc_results = filtered,
         sc_selected = selected,
         sc_min_rating = min_rating,
         sc_sort = sort_by\<rparr>\<rparr>"



subsection \<open>Example data\<close>

text \<open>
  The three records of the specification's examples and four more, each with the JSON text
  that \<open>json.loads\<close> parses to it.
\<close>

definition stay_a :: json where
  "stay_a = JObj [(''id'', JStr ''a''), (''city'', JStr ''Paris''),
                  (''rating'', JFloat (9 / 2)), (''price_per_night'', JInt 120)]"

definition stay_a_text :: string where
  \<open>stay_a_text = ''{"id": "a", "city": "Paris", "rating": 4.5, "price_per_night": 120}''\<close>

definition stay_b :: json where
  "stay_b = JObj [(''id'', JStr ''b''), (''city'', JStr ''paris''),
                  (''rating'', JFloat 3), (''price_per_night'', JInt 80)]"

definition stay_b_text :: string where
  \<open>stay_b_text = ''{"id": "b", "city": "paris", "rating": 3.0, "price_per_night": 80}''\<close>

definition stay_c :: json where
  "stay_c = JObj [(''id'', JStr ''c''), (''city'', JStr ''Rome''),
                  (''rating'', JFloat 5), (''price_per_night'', JInt 200)]"

definition stay_c_text :: string where
  \<open>stay_c_text = ''{"id": "c", "city": "Rome", "rating": 5.0, "price_per_night": 200}''\<close>

definition stay_t :: json where
  \<comment> \<open>a second Paris stay with the rating of \<open>stay_a\<close> and the price of \<open>stay_b\<close>\<close>
  "stay_t = JObj [(''id'', JStr ''t''), (''city'', JStr ''PARIS''),
                  (''rating'', JFloat (9 / 2)), (''price_per_night'', JInt 80)]"

definition stay_t_text :: string where
  \<open>stay_t_text = ''{"id": "t", "city": "PARIS", "rating": 4.5, "price_per_night": 80}''\<close>

definition stay_anon :: json where
  \<comment> \<open>a record whose id is the empty string\<close>
  "stay_anon = JObj [(''id'', JStr []), (''city'', JStr ''Paris'')]"

definition stay_anon_text :: string where
  \<open>stay_anon_text = ''{"id": "", "city": "Paris"}''\<close>

definition stay_noid :: json where
  "stay_noid = JObj [(''city'', JStr ''Paris'')]"

definition stay_noid_text :: string where
  \<open>stay_noid_text = ''{"city": "Paris"}''\<close>

definition stay_odd :: json where
  \<comment> \<open>a Paris stay whose rating is a text\<close>
  "stay_odd = JObj [(''id'', JStr ''o''), (''city'', JStr ''Paris''),
                    (''rating'', JStr ''high'')]"

definition stay_odd_text :: string where
  \<open>stay_odd_text = ''{"id": "o", "city": "Paris", "rating": "high"}''\<close>

definition stay_nocity :: json where
  "stay_nocity = JObj [(''id'', JStr ''d''), (''rating'', JInt 4)]"

definition stay_nocity_text :: string where
  \<open>stay_nocity_text = ''{"id": "d", "rating": 4}''\<close>

fun array_text :: "string list \<Rightarrow> string" where
  \<comment> \<open>the text of a JSON array, from the texts of its items\<close>
  "array_text [] = ''[]''"
| "array_text (t # ts) = ''['' @ t @ concat (map (\<lambda>u. '', '' @ u) ts) @ '']''"

definition ex_loads :: "string \<Rightarrow> json option" where
  \<comment> \<open>\<open>json.loads\<close> on the data files used below; another text counts as unparsable, as
      the text of \<open>ex_env_garbled\<close> is\<close>
  "ex_loads =
     map_of
       [(array_text [stay_a_text, stay_b_text, stay_c_text], JArr [stay_a, stay_b, stay_c]),
        (array_text [stay_a_text, stay_b_text, stay_c_text, stay_t_text],
           JArr [stay_a, stay_b, stay_c, stay_t]),
        (array_text [stay_a_text, stay_odd_text], JArr [stay_a, stay_odd]),
        (array_text [stay_anon_text], JArr [stay_anon]),
        (array_text [stay_noid_text], JArr [stay_noid]),
        (array_text [stay_a_text, stay_nocity_text], JArr [stay_a, stay_nocity])]"

definition ex_env :: env where
  \<comment> \<open>the dataset of the specification's examples; nothing is built\<close>
  "ex_env = \<lparr>data_text = Some (array_text [stay_a_text, stay_b_text, stay_c_text]), assets = []\<rparr>"



definition ex_env_anon :: env where
  "ex_env_anon = \<lparr>data_text = Some (array_text [stay_anon_text]), assets = []\<rparr>"

definition ex_env_noid :: env where
  "ex_env_noid = \<lparr>data_text = Some (array_text [stay_noid_text]), assets = []\<rparr>"



definition ex_env_unreadable :: env where
  \<comment> \<open>no data file\<close>
  "ex_env_unreadable = \<lparr>data_text = None, assets = []\<rparr>"

definition ex_env_garbled :: env where
  \<comment> \<open>a data file that is cut off after its first character\<close>
  "ex_env_garbled = \<lparr>data_text = Some ''['', assets = []\<rparr>"

subsection \<open>Auxiliary facts\<close>

lemma bind_err_simps [simp]:
  "bind_err (Inl e) f = Inl e" "bind_err (Inr x) f = f x"
  by (simp_all add: bind_err_def)

lemma bind_err_Inr_iff: "bind_err m f = Inr y \<longleftrightarrow> (\<exists>x. m = Inr x \<and> f x = Inr y)"
  by (cases m) simp_all

lemma bind_err_Inl_iff: "bind_err m f = Inl e \<longleftrightarrow> m = Inl e \<or> (\<exists>x. m = Inr x \<and> f x = Inl e)"
  by (cases m) simp_all

lemma filter_err_Inr:
  "filter_err p xs = Inr ys \<Longrightarrow> ys = filter (\<lambda>x. p x = Inr True) xs \<and> (\<forall>x \<in> set xs. \<exists>b. p x = Inr b)"
  by (induction xs arbitrary: ys) (auto simp: bind_err_Inr_iff)

lemma filter_err_total:
  "\<forall>x \<in> set xs. \<exists>b. p x = Inr b \<Longrightarrow> filter_err p xs = Inr (filter (\<lambda>x. p x = Inr True) xs)"
  by (induction xs) auto



lemma map_err_Inr: "map_err f xs = Inr ys \<longleftrightarrow> map f xs = map Inr ys"
  by (induction xs arbitrary: ys) (auto simp: bind_err_Inr_iff Cons_eq_map_conv)

lemma map_err_Inl: "map_err f xs = Inl err \<Longrightarrow> \<exists>x \<in> set xs. f x = Inl err"
  by (induction xs) (auto simp: bind_err_Inl_iff)

lemma insort_key_map: "insort_key f (g x) (map g xs) = map g (insort_key (\<lambda>a. f (g a)) x xs)"
  by (induction xs) auto

lemma sort_key_map: "sort_key f (map g xs) = map g (sort_key (\<lambda>a. f (g a)) xs)"
  by (induction xs) (auto simp: insort_key_map)

lemma stable_sort_map: "stable_sort f r (map g xs) = map g (stable_sort (\<lambda>a. f (g a)) r xs)"
  by (simp add: stable_sort_def sort_key_map rev_map)

lemma mset_stable_sort: "mset (stable_sort f r xs) = mset xs"
  by (simp add: stable_sort_def)




lemma py_get_Inr: "py_get s k (JInt 0) = Inr v \<Longrightarrow> v = get_or0 s k"
  by (cases s) (auto simp: get_or0_def field_def)

lemma py_get_obj: "py_get (JObj kvs) k (JInt 0) = Inr (get_or0 (JObj kvs) k)"
  by (simp add: get_or0_def field_def)

lemma map_err_py_get:
  "map_err (\<lambda>s. py_get s k (JInt 0)) xs = Inr ks \<Longrightarrow> ks = map (\<lambda>s. get_or0 s k) xs"
  by (induction xs arbitrary: ks) (auto simp: bind_err_Inr_iff dest: py_get_Inr)

lemma zip_map_self: "zip (map f xs) xs = map (\<lambda>x. (f x, x)) xs"
  by (induction xs) auto

lemma py_sort_Inr:
  assumes "py_sort (\<lambda>s. py_get s k (JInt 0)) r xs = Inr ys"
  shows "(length xs \<le> 1 \<and> ys = xs)
       \<or> ((\<forall>x \<in> set xs. num_val (get_or0 x k) \<noteq> None)
            \<and> ys = stable_sort (\<lambda>x. num_key (get_or0 x k)) r xs)
       \<or> ((\<forall>x \<in> set xs. str_val (get_or0 x k) \<noteq> None)
            \<and> ys = stable_sort (\<lambda>x. str_key (get_or0 x k)) r xs)"
proof -
  from assms obtain ks where ks: "map_err (\<lambda>s. py_get s k (JInt 0)) xs = Inr ks"
    and body: "(if length xs \<le> 1 then Inr xs
       else if list_all (\<lambda>k. num_val k \<noteq> None) ks
         then Inr (map snd (stable_sort (\<lambda>kx. num_key (fst kx)) r (zip ks xs)))
       else if list_all (\<lambda>k. str_val k \<noteq> None) ks
         then Inr (map snd (stable_sort (\<lambda>kx. str_key (fst kx)) r (zip ks xs)))
       else if list_all is_arr ks then Inl Unmodelled
       else Inl (TypeError LessThan)) = Inr ys"
    unfolding py_sort_def bind_err_Inr_iff by blast
  have ks_eq: "ks = map (\<lambda>s. get_or0 s k) xs"
    using ks by (rule map_err_py_get)
  have z: "zip ks xs = map (\<lambda>x. (get_or0 x k, x)) xs"
    by (simp add: ks_eq zip_map_self)
  show ?thesis
    using body
    by (auto simp: ks_eq zip_map_self stable_sort_map comp_def list_all_iff split: if_splits)
qed

lemma py_sort_total_num:
  assumes "\<forall>x \<in> set xs. \<exists>kvs. x = JObj kvs" "\<forall>x \<in> set xs. num_val (get_or0 x k) \<noteq> None"
  shows "\<exists>ys. py_sort (\<lambda>s. py_get s k (JInt 0)) r xs = Inr ys"
proof -
  have "map_err (\<lambda>s. py_get s k (JInt 0)) xs = Inr (map (\<lambda>s. get_or0 s k) xs)"
    using assms(1) by (induction xs) (auto simp: get_or0_def field_def)
  then show ?thesis
    using assms(2) by (simp add: py_sort_def list_all_iff)
qed

lemma py_sort_mset: "py_sort (\<lambda>s. py_get s k (JInt 0)) r xs = Inr ys \<Longrightarrow> mset ys = mset xs"
  by (drule py_sort_Inr) (auto simp: mset_stable_sort)







lemma py_sort_set: "py_sort (\<lambda>s. py_get s k (JInt 0)) r xs = Inr ys \<Longrightarrow> set ys = set xs"
  by (drule py_sort_mset) (rule mset_eq_setD)




lemma city_matches_Inr: "city_matches cn s = Inr b \<Longrightarrow> b = has_city cn s"
  by (cases s)
    (auto simp: city_matches_def has_city_def field_def bind_err_Inr_iff
      split: option.splits json.splits elim: py_lower.elims)

lemma city_matches_True: "(city_matches cn s = Inr True) = (has_city cn s)"
  by (cases s)
    (auto simp: city_matches_def has_city_def field_def bind_err_Inr_iff
      split: option.splits json.splits)

lemma city_matches_total:
  "field s ''city'' = Some (JStr c) \<Longrightarrow> city_matches cn s = Inr (str_lower c = cn)"
  by (cases s) (auto simp: city_matches_def field_def)


lemma py_float_Inr: "py_float v = Inr q \<Longrightarrow> num_val v = Some q"
  by (cases v) (auto split: if_splits)

lemma rating_at_least_Inr: "rating_at_least r s = Inr b \<Longrightarrow> b = (r \<le> rating_of s)"
  by (auto simp: rating_at_least_def bind_err_Inr_iff rating_of_def num_key_def
      dest!: py_get_Inr py_float_Inr)

lemma filter_city:
  "filter (\<lambda>s. city_matches cn s = Inr True) recs = filter (has_city cn) recs"
  by (simp add: city_matches_True)

lemma filter_rating:
  assumes "\<forall>s \<in> set xs. \<exists>b. rating_at_least r s = Inr b"
  shows "filter (\<lambda>s. rating_at_least r s = Inr True) xs = filter (\<lambda>s. r \<le> rating_of s) xs"
proof (rule filter_cong [OF refl])
  fix s assume "s \<in> set xs"
  then obtain b where b: "rating_at_least r s = Inr b"
    using assms by blast
  from rating_at_least_Inr [OF b] b
  show "(rating_at_least r s = Inr True) = (r \<le> rating_of s)"
    by auto
qed

lemma rating_stage_Inr:
  assumes "(case mr of None \<Rightarrow> Inr (filter (has_city cn) recs)
            | Some r \<Rightarrow> filter_err (rating_at_least r) (filter (has_city cn) recs)) = Inr f2"
  shows "f2 = kept cn mr recs"
    and "\<forall>r. mr = Some r \<longrightarrow> (\<forall>s \<in> set recs. has_city cn s \<longrightarrow> (\<exists>b. rating_at_least r s = Inr b))"
proof -
  show "f2 = kept cn mr recs"
  proof (cases mr)
    case None
    with assms show ?thesis
      by (simp add: kept_def meets_min_rating_def)
  next
    case (Some r)
    with assms have f: "filter_err (rating_at_least r) (filter (has_city cn) recs) = Inr f2"
      by simp
    from filter_err_Inr [OF f] filter_rating [of "filter (has_city cn) recs" r]
    show ?thesis
      by (simp add: kept_def meets_min_rating_def Some)
  qed
  show "\<forall>r. mr = Some r \<longrightarrow> (\<forall>s \<in> set recs. has_city cn s \<longrightarrow> (\<exists>b. rating_at_least r s = Inr b))"
  proof (intro allI impI)
    fix r assume "mr = Some r"
    with assms have f: "filter_err (rating_at_least r) (filter (has_city cn) recs) = Inr f2"
      by simp
    from filter_err_Inr [OF f]
    show "\<forall>s \<in> set recs. has_city cn s \<longrightarrow> (\<exists>b. rating_at_least r s = Inr b)"
      by simp
  qed
qed

lemma rating_stage_total:
  assumes "\<forall>r. mr = Some r \<longrightarrow> (\<forall>s \<in> set recs. has_city cn s \<longrightarrow> (\<exists>b. rating_at_least r s = Inr b))"
  shows "(case mr of None \<Rightarrow> Inr (filter (has_city cn) recs)
            | Some r \<Rightarrow> filter_err (rating_at_least r) (filter (has_city cn) recs))
         = Inr (kept cn mr recs)"
proof (cases mr)
  case None
  then show ?thesis
    by (simp add: kept_def meets_min_rating_def)
next
  case (Some r)
  with assms have a: "\<forall>s \<in> set (filter (has_city cn) recs). \<exists>b. rating_at_least r s = Inr b"
    by simp
  show ?thesis
    using filter_err_total [OF a] filter_rating [OF a]
    by (simp add: Some kept_def meets_min_rating_def)
qed

lemma find_selected_Inr: "find_selected sid xs = Inr r \<Longrightarrow> r = find (has_id sid) xs"
proof (induction xs)
  case Nil
  then show ?case by simp
next
  case (Cons s ss)
  then show ?case
    by (cases s) (auto simp: has_id_def field_def split: option.splits if_splits)
qed

lemma find_selected_total:
  "\<forall>s \<in> set xs. field s ''id'' \<noteq> None \<Longrightarrow> find_selected sid xs = Inr (find (has_id sid) xs)"
proof (induction xs)
  case Nil
  then show ?case by simp
next
  case (Cons s ss)
  then show ?case
    by (cases s) (auto simp: has_id_def field_def split: option.splits if_splits)
qed


lemma explore_stays_unfold:
  assumes "load_stays loads e = Inr stays" and "py_iter stays = Inr recs"
  shows "explore_stays loads e city mr srt sid =
     bind_err (filter_err (city_matches (str_lower (str_strip city))) recs) (\<lambda>f1.
     bind_err (case mr of None \<Rightarrow> Inr f1 | Some r \<Rightarrow> filter_err (rating_at_least r) f1) (\<lambda>f2.
     bind_err (py_sort (\<lambda>s. py_get s (sort_field srt) (JInt 0)) (srt = ''rating'') f2) (\<lambda>f3.
     bind_err (select_stage sid f3) (\<lambda>sel.
     Inr (make_result city mr srt f3 sel)))))"
  by (simp add: explore_stays_def assms Let_def sort_field_def select_stage_def make_result_def)

lemma explore_stays_loaded:
  assumes "explore_stays loads e city mr srt sid = Inr res"
  shows "\<exists>stays recs. load_stays loads e = Inr stays \<and> py_iter stays = Inr recs"
  using assms unfolding explore_stays_def Let_def bind_err_Inr_iff by blast

lemma explore_stays_InrD:
  assumes load: "load_stays loads e = Inr stays" "py_iter stays = Inr recs"
    and ok: "explore_stays loads e city mr srt sid = Inr res"
  shows "\<exists>R sel.
      (\<forall>s \<in> set recs. \<exists>b. city_matches (str_lower (str_strip city)) s = Inr b) \<and>
      (\<forall>r. mr = Some r \<longrightarrow> (\<forall>s \<in> set recs. has_city (str_lower (str_strip city)) s
                \<longrightarrow> (\<exists>b. rating_at_least r s = Inr b))) \<and>
      py_sort (\<lambda>s. py_get s (sort_field srt) (JInt 0)) (srt = ''rating'')
        (kept (str_lower (str_strip city)) mr recs) = Inr R \<and>
      select_stage sid R = Inr sel \<and>
      res = make_result city mr srt R sel"
proof -
  let ?cn = "str_lower (str_strip city)"
  from ok obtain f1 f2 R sel where
    f1: "filter_err (city_matches ?cn) recs = Inr f1" and
    f2: "(case mr of None \<Rightarrow> Inr f1 | Some r \<Rightarrow> filter_err (rating_at_least r) f1) = Inr f2" and
    R: "py_sort (\<lambda>s. py_get s (sort_field srt) (JInt 0)) (srt = ''rating'') f2 = Inr R" and
    sel: "select_stage sid R = Inr sel" and
    res: "res = make_result city mr srt R sel"
    unfolding explore_stays_unfold [OF load] bind_err_Inr_iff by auto
  from filter_err_Inr [OF f1] have f1_eq: "f1 = filter (has_city ?cn) recs"
    and c: "\<forall>s \<in> set recs. \<exists>b. city_matches ?cn s = Inr b"
    by (simp_all add: filter_city)
  from rating_stage_Inr [OF f2 [unfolded f1_eq]] R sel res c
  show ?thesis by blast
qed

lemma explore_stays_InrI:
  assumes load: "load_stays loads e = Inr stays" "py_iter stays = Inr recs"
    and c: "\<forall>s \<in> set recs. \<exists>b. city_matches (str_lower (str_strip city)) s = Inr b"
    and r: "\<forall>r. mr = Some r \<longrightarrow> (\<forall>s \<in> set recs. has_city (str_lower (str_strip city)) s
                \<longrightarrow> (\<exists>b. rating_at_least r s = Inr b))"
    and R: "py_sort (\<lambda>s. py_get s (sort_field srt) (JInt 0)) (srt = ''rating'')
        (kept (str_lower (str_strip city)) mr recs) = Inr R"
    and sel: "select_stage sid R = Inr sel"
  shows "explore_stays loads e city mr srt sid = Inr (make_result city mr srt R sel)"
proof -
  let ?cn = "str_lower (str_strip city)"
  have f1: "filter_err (city_matches ?cn) recs = Inr (filter (has_city ?cn) recs)"
    using filter_err_total [OF c] by (simp add: filter_city)
  show ?thesis
    unfolding explore_stays_unfold [OF load]
    by (simp add: f1 rating_stage_total [OF r] R sel)
qed





lemma select_stage_total:
  "\<forall>s \<in> set R. field s ''id'' \<noteq> None \<Longrightarrow>
   select_stage sid R =
     Inr (case sid of None \<Rightarrow> None | Some i \<Rightarrow> if i \<noteq> [] then find (has_id i) R else None)"
  by (simp add: select_stage_def find_selected_total split: option.splits)



subsection \<open>Evaluating the examples\<close>




lemma results_make_result [simp]:
  "sc_results (structured_content (make_result city mr srt R sel)) = R"
  "sc_selected (structured_content (make_result city mr srt R sel)) = sel"
  "sc_city (structured_content (make_result city mr srt R sel)) = str_strip city"
  by (simp_all add: make_result_def)

subsection \<open>The query returns on a well-formed dataset\<close>

text \<open>
  The theorems on the results below are about a call that returns. Such calls exist on
  every dataset of the documented form: an array of records with a string city, an id, and
  numbers for the rating and the price where these are present.
\<close>

lemma py_float_total: "float_ok v \<Longrightarrow> \<exists>q. py_float v = Inr q"
  by (cases v) (auto simp: float_ok_def split: option.splits)

lemma float_ok_num: "float_ok v \<Longrightarrow> num_val v \<noteq> None"
  by (cases v) (auto simp: float_ok_def)

lemma well_formed_stay_obj: "well_formed_stay s \<Longrightarrow> \<exists>kvs. s = JObj kvs"
  by (cases s) (simp_all add: well_formed_stay_def city_is_str_def field_def)

lemma city_is_str_matches: "city_is_str s \<Longrightarrow> \<exists>b. city_matches cn s = Inr b"
proof -
  assume "city_is_str s"
  then obtain c where "field s ''city'' = Some (JStr c)"
    by (auto simp: city_is_str_def split: option.splits json.splits)
  from city_matches_total [OF this] show ?thesis
    by blast
qed

lemma well_formed_rating: "well_formed_stay s \<Longrightarrow> \<exists>b. rating_at_least r s = Inr b"
proof -
  assume wf: "well_formed_stay s"
  then obtain kvs where s: "s = JObj kvs"
    using well_formed_stay_obj by blast
  from wf have "float_ok (get_or0 s ''rating'')"
    by (simp add: well_formed_stay_def)
  from py_float_total [OF this] obtain q where "py_float (get_or0 s ''rating'') = Inr q"
    by blast
  then show ?thesis
    unfolding s rating_at_least_def py_get_obj by simp
qed

lemma explore_stays_returns:
  assumes load: "load_stays loads e = Inr (JArr recs)"
    and wf: "\<forall>s \<in> set recs. well_formed_stay s"
  shows "\<exists>res. explore_stays loads e city mr srt sid = Inr res"
proof -
  let ?cn = "str_lower (str_strip city)"
  have it: "py_iter (JArr recs) = Inr recs" by simp
  have c: "\<forall>s \<in> set recs. \<exists>b. city_matches ?cn s = Inr b"
    using wf by (auto simp: well_formed_stay_def intro: city_is_str_matches)
  have r: "\<forall>r. mr = Some r \<longrightarrow> (\<forall>s \<in> set recs. has_city ?cn s
                \<longrightarrow> (\<exists>b. rating_at_least r s = Inr b))"
    using wf by (auto intro: well_formed_rating)
  have k: "\<forall>s \<in> set (kept ?cn mr recs). well_formed_stay s"
    using wf by (simp add: kept_def)
  have objs: "\<forall>s \<in> set (kept ?cn mr recs). \<exists>kvs. s = JObj kvs"
    using k well_formed_stay_obj by blast
  have nums: "\<forall>s \<in> set (kept ?cn mr recs). num_val (get_or0 s (sort_field srt)) \<noteq> None"
    using k by (auto simp: well_formed_stay_def sort_field_def dest: float_ok_num)
  from py_sort_total_num [OF objs nums] obtain R where
    R: "py_sort (\<lambda>s. py_get s (sort_field srt) (JInt 0)) (srt = ''rating'') (kept ?cn mr recs)
          = Inr R"
    by blast
  have "set R = set (kept ?cn mr recs)"
    using R by (rule py_sort_set)
  with k have "\<forall>s \<in> set R. field s ''id'' \<noteq> None"
    by (simp add: well_formed_stay_def)
  from explore_stays_InrI [OF load it c r R select_stage_total [OF this]] show ?thesis
    by blast
qed

section \<open>The claims\<close>

text \<open>
  In the theorems below, \<open>recs\<close> are the records of the dataset (the data file holds a
  JSON array), \<open>res\<close> is what a successful call returns, and the normalised city is
  \<open>str_lower (str_strip city)\<close>.
\<close>

subsection \<open>C1: the city filter\<close>




subsection \<open>C2: the order of the results\<close>



subsection \<open>C3: the minimum rating\<close>



subsection \<open>C4: the selected record\<close>

lemma make_result_selected:
  "(make_result city mr srt R sel)\<lparr>structured_content :=
      (structured_content (make_result city mr srt R sel))\<lparr>sc_selected := x\<rparr>\<rparr>
   = make_result city mr srt R x"
  by (simp add: make_result_def)

text \<open>
  C4, as amended. Let \<open>selected_id\<close> be present and not the empty string, and let every
  record of the filtered and sorted results carry an id. Then the call succeeds, its results
  are those of the call without \<open>selected_id\<close>, and \<open>selected\<close> is the first record of
  that sequence whose id is \<open>selected_id\<close>, or absent when the sequence has none (also when
  a record of the dataset outside the results has that id).
\<close>

theorem selected_first_match:
  assumes "sid \<noteq> []"
    and "explore_stays loads e city mr srt None = Inr res"
    and "\<forall>s \<in> set (sc_results (structured_content res)). field s ''id'' \<noteq> None"
  shows "explore_stays loads e city mr srt (Some sid)
       = Inr (res\<lparr>structured_content :=
                (structured_content res)\<lparr>sc_selected :=
                   find (has_id sid) (sc_results (structured_content res))\<rparr>\<rparr>)"
proof -
  from explore_stays_loaded [OF assms(2)] obtain stays recs where
    load: "load_stays loads e = Inr stays" "py_iter stays = Inr recs"
    by blast
  from explore_stays_InrD [OF load assms(2)] obtain R sel where
    c: "\<forall>s \<in> set recs. \<exists>b. city_matches (str_lower (str_strip city)) s = Inr b"
    and r: "\<forall>r. mr = Some r \<longrightarrow> (\<forall>s \<in> set recs. has_city (str_lower (str_strip city)) s
                \<longrightarrow> (\<exists>b. rating_at_least r s = Inr b))"
    and R: "py_sort (\<lambda>s. py_get s (sort_field srt) (JInt 0)) (srt = ''rating'')
          (kept (str_lower (str_strip city)) mr recs) = Inr R"
    and sel: "select_stage None R = Inr sel"
    and res: "res = make_result city mr srt R sel"
    by blast
  have ids: "\<forall>s \<in> set R. field s ''id'' \<noteq> None"
    using assms(3) by (simp add: res)
  have "select_stage (Some sid) R = Inr (find (has_id sid) R)"
    using select_stage_total [OF ids, of "Some sid"] assms(1) by simp
  from explore_stays_InrI [OF load c r R this] show ?thesis
    by (simp add: res make_result_selected)
qed

text \<open>
  The theorem at the specification's third example, and with the id of \<open>stay_c\<close>, which is
  in the dataset and not among the results.
\<close>

theorem selected_first_match_witness:
  "explore_stays ex_loads ex_env ''Paris'' None ''price'' None
     = Inr (make_result ''Paris'' None ''price'' [stay_b, stay_a] None)
   \<and> explore_stays ex_loads ex_env ''Paris'' None ''price'' (Some ''b'')
     = Inr (make_result ''Paris'' None ''price'' [stay_b, stay_a] (Some stay_b))
   \<and> explore_stays ex_loads ex_env ''Paris'' None ''price'' (Some ''c'')
     = Inr (make_result ''Paris'' None ''price'' [stay_b, stay_a] None)
   \<and> has_id ''c'' stay_c"
proof -
  have h: "explore_stays ex_loads ex_env ''Paris'' None ''price'' None
     = Inr (make_result ''Paris'' None ''price'' [stay_b, stay_a] None)"
    by code_simp
  have ids: "\<forall>s \<in> set (sc_results (structured_content
      (make_result ''Paris'' None ''price'' [stay_b, stay_a] None))). field s ''id'' \<noteq> None"
    by (simp add: stay_a_def stay_b_def field_def)
  have f: "find (has_id ''b'') [stay_b, stay_a] = Some stay_b"
    "find (has_id ''c'') [stay_b, stay_a] = None" "has_id ''c'' stay_c"
    by code_simp+
  have ne: "''b'' \<noteq> []" "''c'' \<noteq> []"
    by simp_all
  note b = selected_first_match [OF ne(1) h ids, unfolded results_make_result make_result_selected f]
  note c = selected_first_match [OF ne(2) h ids, unfolded results_make_result make_result_selected f]
  from h b c f(3) show ?thesis
    by blast
qed

text \<open>
  C4 as stated fails for the empty string: it is a \<open>selected_id\<close> that is present, the one
  record of the results has it as its id, and \<open>selected\<close> is absent. It also fails on a
  result without an id: the call without \<open>selected_id\<close> returns, the call with an id
  that no record has raises \<open>KeyError\<close>.
\<close>

theorem selected_empty_id_counterexample:
  "explore_stays ex_loads ex_env_anon ''Paris'' None ''rating'' (Some [])
     = Inr (make_result ''Paris'' None ''rating'' [stay_anon] None)
   \<and> has_id [] stay_anon
   \<and> explore_stays ex_loads ex_env_noid ''Paris'' None ''rating'' None
     = Inr (make_result ''Paris'' None ''rating'' [stay_noid] None)
   \<and> explore_stays ex_loads ex_env_noid ''Paris'' None ''rating'' (Some ''x'')
     = Inl (KeyError ''id'')"
  by code_simp

subsection \<open>C5: the city of the result\<close>

text \<open>
  C5, as amended. The city field of the structured result is the input city with the
  surrounding whitespace trimmed; its case is kept.
\<close>

theorem result_city_trimmed:
  assumes "explore_stays loads e city mr srt sid = Inr res"
  shows "sc_city (structured_content res) = str_strip city"
proof -
  from explore_stays_loaded [OF assms] obtain stays recs where
    load: "load_stays loads e = Inr stays" "py_iter stays = Inr recs"
    by blast
  from explore_stays_InrD [OF load assms] show ?thesis
    by auto
qed

theorem result_city_trimmed_witness:
  "explore_stays ex_loads ex_env '' Paris  '' None ''rating'' None
     = Inr (make_result '' Paris  '' None ''rating'' [stay_a, stay_b] None)
   \<and> sc_city (structured_content (make_result '' Paris  '' None ''rating'' [stay_a, stay_b] None))
     = str_strip '' Paris  ''
   \<and> str_strip '' Paris  '' = ''Paris''"
proof -
  have h: "explore_stays ex_loads ex_env '' Paris  '' None ''rating'' None
     = Inr (make_result '' Paris  '' None ''rating'' [stay_a, stay_b] None)"
    and v: "str_strip '' Paris  '' = ''Paris''"
    by code_simp+
  from result_city_trimmed [OF h] h v show ?thesis
    by blast
qed

text \<open>
  C5 as stated fails for a city with a capital letter: the result carries \<open>Paris\<close>, the
  trimmed and lower-cased city is \<open>paris\<close>.
\<close>

theorem result_city_counterexample:
  "explore_stays ex_loads ex_env ''Paris'' None ''rating'' None
     = Inr (make_result ''Paris'' None ''rating'' [stay_a, stay_b] None)
   \<and> sc_city (structured_content (make_result ''Paris'' None ''rating'' [stay_a, stay_b] None))
     = ''Paris''
   \<and> str_lower (str_strip ''Paris'') = ''paris''
   \<and> ''Paris'' \<noteq> ''paris''"
  by code_simp

subsection \<open>C6: the built asset\<close>




subsection \<open>C7: determinism\<close>



subsection \<open>C8: the dataset loader\<close>

text \<open>
  C8. The loader fails exactly when the data file cannot be read or its text cannot be
  parsed; \<open>explore_stays\<close> then fails with the loader's error and returns no result. When
  the file is read and parsed, the loader returns the whole parsed collection.
\<close>

theorem load_stays_outcome:
  "((data_text e = None \<or> (\<exists>t. data_text e = Some t \<and> loads t = None))
      \<longleftrightarrow> (\<exists>err. load_stays loads e = Inl err))
   \<and> (\<forall>err. load_stays loads e = Inl err \<longrightarrow>
         explore_stays loads e city mr srt sid = Inl err)
   \<and> (\<forall>t v. data_text e = Some t \<and> loads t = Some v \<longrightarrow> load_stays loads e = Inr v)"
proof (intro conjI allI impI)
  show "(data_text e = None \<or> (\<exists>t. data_text e = Some t \<and> loads t = None))
      \<longleftrightarrow> (\<exists>err. load_stays loads e = Inl err)"
  proof (cases "data_text e")
    case None
    then show ?thesis
      by (simp add: load_stays_def)
  next
    case (Some t)
    then show ?thesis
      by (cases "loads t") (simp_all add: load_stays_def)
  qed
next
  fix err
  assume "load_stays loads e = Inl err"
  then show "explore_stays loads e city mr srt sid = Inl err"
    by (simp add: explore_stays_def)
next
  fix t v
  assume "data_text e = Some t \<and> loads t = Some v"
  then show "load_stays loads e = Inr v"
    by (simp add: load_stays_def)
qed

text \<open>The theorem on a missing file, on a file that is no JSON, and on the example file.\<close>

theorem load_stays_outcome_witness:
  "load_stays ex_loads ex_env_unreadable = Inl ReadError
   \<and> explore_stays ex_loads ex_env_unreadable ''Paris'' None ''rating'' None = Inl ReadError
   \<and> load_stays ex_loads ex_env_garbled = Inl JSONDecodeError
   \<and> explore_stays ex_loads ex_env_garbled ''Paris'' None ''rating'' None = Inl JSONDecodeError
   \<and> data_text ex_env = Some (array_text [stay_a_text, stay_b_text, stay_c_text])
   \<and> ex_loads (array_text [stay_a_text, stay_b_text, stay_c_text])
       = Some (JArr [stay_a, stay_b, stay_c])
   \<and> load_stays ex_loads ex_env = Inr (JArr [stay_a, stay_b, stay_c])"
proof -
  have u: "load_stays ex_loads ex_env_unreadable = Inl ReadError"
    and g: "load_stays ex_loads ex_env_garbled = Inl JSONDecodeError"
    and d: "data_text ex_env = Some (array_text [stay_a_text, stay_b_text, stay_c_text])"
    and p: "ex_loads (array_text [stay_a_text, stay_b_text, stay_c_text])
        = Some (JArr [stay_a, stay_b, stay_c])"
    by code_simp+
  from load_stays_outcome [of ex_env_unreadable ex_loads "''Paris''" None "''rating''" None] u
  have u': "explore_stays ex_loads ex_env_unreadable ''Paris'' None ''rating'' None = Inl ReadError"
    by blast
  from load_stays_outcome [of ex_env_garbled ex_loads "''Paris''" None "''rating''" None] g
  have g': "explore_stays ex_loads ex_env_garbled ''Paris'' None ''rating'' None
      = Inl JSONDecodeError"
    by blast
  from load_stays_outcome [of ex_env ex_loads "''Paris''" None "''rating''" None] d p
  have l: "load_stays ex_loads ex_env = Inr (JArr [stay_a, stay_b, stay_c])"
    by blast
  from u u' g g' d p l show ?thesis
    by blast
qed

subsection \<open>C9: the empty selected id\<close>

text \<open>
  C9. With the empty string as \<open>selected_id\<close> the call does what it does without a
  \<open>selected_id\<close>: the scan is skipped, and \<open>selected\<close> is absent in every result, also
  when a record of the results has the empty string as its id.
\<close>

theorem empty_selected_id_is_absent:
  "explore_stays loads e city mr srt (Some []) = explore_stays loads e city mr srt None
   \<and> (\<forall>res. explore_stays loads e city mr srt (Some []) = Inr res \<longrightarrow>
         sc_selected (structured_content res) = None)"
proof -
  have eq: "explore_stays loads e city mr srt (Some []) = explore_stays loads e city mr srt None"
    by (simp add: explore_stays_def)
  have "sc_selected (structured_content res) = None"
    if ok: "explore_stays loads e city mr srt None = Inr res" for res
  proof -
    from explore_stays_loaded [OF ok] obtain stays recs where
      load: "load_stays loads e = Inr stays" "py_iter stays = Inr recs"
      by blast
    from explore_stays_InrD [OF load ok] show ?thesis
      by (auto simp: select_stage_def)
  qed
  with eq show ?thesis
    by simp
qed

theorem empty_selected_id_is_absent_witness:
  "explore_stays ex_loads ex_env_anon ''Paris'' None ''rating'' (Some [])
     = explore_stays ex_loads ex_env_anon ''Paris'' None ''rating'' None
   \<and> explore_stays ex_loads ex_env_anon ''Paris'' None ''rating'' None
     = Inr (make_result ''Paris'' None ''rating'' [stay_anon] None)
   \<and> field stay_anon ''id'' = Some (JStr [])
   \<and> sc_selected (structured_content (make_result ''Paris'' None ''rating'' [stay_anon] None))
     = None"
proof -
  have v: "explore_stays ex_loads ex_env_anon ''Paris'' None ''rating'' None
     = Inr (make_result ''Paris'' None ''rating'' [stay_anon] None)"
    and i: "field stay_anon ''id'' = Some (JStr [])"
    by code_simp+
  note t = empty_selected_id_is_absent [of ex_loads ex_env_anon "''Paris''" None "''rating''"]
  from t have eq: "explore_stays ex_loads ex_env_anon ''Paris'' None ''rating'' (Some [])
     = explore_stays ex_loads ex_env_anon ''Paris'' None ''rating'' None"
    by blast
  from t eq v
  have "sc_selected (structured_content (make_result ''Paris'' None ''rating'' [stay_anon] None))
     = None"
    by metis
  with eq v i show ?thesis
    by blast
qed

subsection \<open>C10: the fields that the query reads\<close>




end
